theory Spec2Isabelle
  imports Complex_Main "HOL-Library.Sublist" "HOL-Library.Log_Nat"
begin

section \<open>Numbers and paths\<close>

text \<open>
  Durations and timestamps are JavaScript numbers, that is IEEE 754 binary64 values. A
  finite number is represented by the rational it denotes, and every arithmetic operation
  of the scripts rounds its exact result to the nearest binary64 value, ties to even
  (\<open>fl64\<close>). Negative zero is not distinguished from zero.
\<close>

text \<open>The integer nearest to \<open>m\<close>; half way between two integers, the even one.\<close>

definition roundTiesToEven :: "rat \<Rightarrow> int" where
  "roundTiesToEven m =
     (let f = \<lfloor>m\<rfloor>; d = m - of_int f in
      if d < 1 / 2 then f
      else if 1 / 2 < d then f + 1
      else if even f then f else f + 1)"

text \<open>For positive \<open>x\<close>, the exponent \<open>e\<close> with \<open>2 ^ e \<le> x < 2 ^ (e + 1)\<close>.\<close>

definition ilog2 :: "rat \<Rightarrow> int" where
  "ilog2 x = (if 1 \<le> x then bitlen \<lfloor>x\<rfloor> - 1 else - bitlen (\<lceil>1 / x\<rceil> - 1))"

text \<open>
  Rounding a positive number: 53 significant bits in the normal range, multiples of
  \<open>2 ^ -1074\<close> below \<open>2 ^ -1022\<close>.
\<close>

definition fl64_pos :: "rat \<Rightarrow> rat" where
  "fl64_pos x =
     (let e = max (ilog2 x) (- 1022); ulp = 2 powi (e - 52)
      in of_int (roundTiesToEven (x / ulp)) * ulp)"

definition fl64 :: "rat \<Rightarrow> rat" where
  "fl64 x = (if x = 0 then 0 else if 0 < x then fl64_pos x else - fl64_pos (- x))"

text \<open>
  The scripts' \<open>+\<close> and \<open>-\<close> on timestamps and durations. These are finite and not
  negative, so a difference cannot overflow; overflow of a sum is not modelled.
\<close>

definition js_add :: "rat \<Rightarrow> rat \<Rightarrow> rat" where
  "js_add x y = fl64 (x + y)"

definition js_sub :: "rat \<Rightarrow> rat \<Rightarrow> rat" where
  "js_sub x y = fl64 (x - y)"

text \<open>
  The scripts' \<open>/\<close>. A zero divisor gives one of JavaScript's three non-finite results, and
  so does a quotient that rounds past the largest binary64 value.
\<close>

datatype jsnum = Finite rat | PosInfinity | NegInfinity | NaN

definition js_div :: "rat \<Rightarrow> rat \<Rightarrow> jsnum" where
  "js_div x y =
     (if y \<noteq> 0 then
        (let q = fl64 (x / y) in
         if 2 ^ 1024 \<le> q then PosInfinity
         else if q \<le> - (2 ^ 1024) then NegInfinity
         else Finite q)
      else if 0 < x then PosInfinity
      else if x < 0 then NegInfinity
      else NaN)"

fun Math_min :: "jsnum \<Rightarrow> rat \<Rightarrow> jsnum" where
  "Math_min (Finite x) y = Finite (min x y)"
| "Math_min PosInfinity y = Finite y"
| "Math_min NegInfinity y = NegInfinity"
| "Math_min NaN y = NaN"

fun Math_ceil :: "jsnum \<Rightarrow> jsnum" where
  "Math_ceil (Finite x) = Finite (of_int \<lceil>x\<rceil>)"
| "Math_ceil PosInfinity = PosInfinity"
| "Math_ceil NegInfinity = NegInfinity"
| "Math_ceil NaN = NaN"

fun js_minus :: "jsnum \<Rightarrow> rat \<Rightarrow> jsnum" where
  "js_minus (Finite x) y = Finite (js_sub x y)"
| "js_minus PosInfinity y = PosInfinity"
| "js_minus NegInfinity y = NegInfinity"
| "js_minus NaN y = NaN"

type_synonym path = string

text \<open>\<open>path.join(dir, name)\<close> for a directory and a plain file name.\<close>

definition path_join :: "path \<Rightarrow> string \<Rightarrow> path" where
  "path_join dir name = dir @ ''/'' @ name"

text \<open>The decimal text of an array index, as a template literal \<open>${index}\<close> prints it.\<close>

fun String_of_nat :: "nat \<Rightarrow> string" where
  "String_of_nat n =
     (if n < 10 then [''0123456789'' ! n]
      else String_of_nat (n div 10) @ [''0123456789'' ! (n mod 10)])"

declare String_of_nat.simps [simp del]

section \<open>Scraping the silence detector's diagnostics (detectSilences)\<close>

record silence =
  type :: string
  time :: rat

definition is_digit :: "char \<Rightarrow> bool" where
  "is_digit c = (c \<in> set ''0123456789'')"

text \<open>
  The sub-pattern \<open>(\d+\.\d+)\<close> tried at the head of a string. \<open>\d+\<close> is greedy and
  giving digits back never helps, since the next character would again be a digit where a
  dot is required; so the match, where there is one, is all leading digits, a dot, and all
  digits that follow. The result is the captured text.
\<close>

definition match_decimal :: "string \<Rightarrow> string option" where
  "match_decimal s =
     (let ip = takeWhile is_digit s; r = dropWhile is_digit s in
      if ip = [] then None
      else (case r of
              [] \<Rightarrow> None
            | c # r' \<Rightarrow>
                if c \<noteq> CHR ''.'' then None
                else (let fp = takeWhile is_digit r' in
                      if fp = [] then None else Some (ip @ ''.'' @ fp))))"

definition match_at :: "string \<Rightarrow> string \<Rightarrow> string option" where
  "match_at key s = (if prefix key s then match_decimal (drop (length key) s) else None)"

text \<open>
  \<open>line.match(/key(\d+\.\d+)/)\<close>: the pattern is not anchored, so every position of the
  line is tried from the left, and the first match wins. The result is capture group 1.
\<close>

fun js_match :: "string \<Rightarrow> string \<Rightarrow> string option" where
  "js_match key [] = match_at key []"
| "js_match key (c # cs) =
     (case match_at key (c # cs) of Some m \<Rightarrow> Some m | None \<Rightarrow> js_match key cs)"

definition digit_val :: "char \<Rightarrow> nat" where
  "digit_val c = of_char c - 48"

definition digits_val :: "string \<Rightarrow> nat" where
  "digits_val ds = foldl (\<lambda>n c. 10 * n + digit_val c) 0 ds"

text \<open>
  \<open>parseFloat\<close> on a captured text, which always has the form digits, dot, digits: the
  binary64 value nearest to the decimal number.
\<close>

definition parseFloat :: "string \<Rightarrow> rat" where
  "parseFloat s =
     (let ip = takeWhile is_digit s;
          fp = takeWhile is_digit (drop (Suc (length ip)) s)
      in fl64 (of_nat (digits_val ip) + of_nat (digits_val fp) / 10 ^ length fp))"

text \<open>The \<open>stderr\<close> handler: one diagnostic line, pushed events appended to \<open>silenceTimes\<close>.\<close>

definition on_stderr :: "silence list \<Rightarrow> string \<Rightarrow> silence list" where
  "on_stderr silenceTimes line =
     (let silenceStartMatch = js_match ''silence_start: '' line;
          silenceEndMatch = js_match ''silence_end: '' line;
          pushed = (case silenceStartMatch of
                      Some m \<Rightarrow> silenceTimes @ [\<lparr>type = ''start'', time = parseFloat m\<rparr>]
                    | None \<Rightarrow> silenceTimes)
      in (case silenceEndMatch of
            Some m \<Rightarrow> pushed @ [\<lparr>type = ''end'', time = parseFloat m\<rparr>]
          | None \<Rightarrow> pushed))"

definition scrape :: "string list \<Rightarrow> silence list" where
  "scrape lines = foldl on_stderr [] lines"

text \<open>
  The claim's wording of a line that reports a timestamp with a decimal point: somewhere in
  the line one of the two keys is followed by digits, a dot, and digits.
\<close>

definition decimal_timestamp_line :: "string \<Rightarrow> bool" where
  "decimal_timestamp_line line =
     (\<exists>key pre ip fp post.
        (key = ''silence_start: '' \<or> key = ''silence_end: '') \<and>
        line = pre @ key @ ip @ ''.'' @ fp @ post \<and>
        ip \<noteq> [] \<and> fp \<noteq> [] \<and> list_all is_digit ip \<and> list_all is_digit fp)"

section \<open>Splitting the audio at the silences (chunked extendAudioWithSilence)\<close>

record audioChunk =
  start :: rat
  "end" :: rat

text \<open>The body of \<open>silenceTimes.forEach\<close>, on the pair \<open>(audioChunks, lastEndTime)\<close>.\<close>

definition forEach_silence :: "audioChunk list \<times> rat \<Rightarrow> silence \<Rightarrow> audioChunk list \<times> rat" where
  "forEach_silence acc silence =
     (case acc of (audioChunks, lastEndTime) \<Rightarrow>
        if type silence = ''start'' then
          (if lastEndTime < time silence
           then (audioChunks @ [\<lparr>start = lastEndTime, end = time silence\<rparr>], lastEndTime)
           else (audioChunks, lastEndTime))
        else if type silence = ''end'' then (audioChunks, time silence)
        else (audioChunks, lastEndTime))"

text \<open>
  The chunk list and the value the script takes for the audio's duration:
  \<open>const audioDuration = lastEndTime; if (audioDuration > lastEndTime) push(...)\<close>.
\<close>

definition audioChunks_of :: "silence list \<Rightarrow> audioChunk list \<times> rat" where
  "audioChunks_of silenceTimes =
     (case foldl forEach_silence ([], 0) silenceTimes of (audioChunks, lastEndTime) \<Rightarrow>
        (let audioDuration = lastEndTime in
         (if audioDuration > lastEndTime
          then audioChunks @ [\<lparr>start = lastEndTime, end = audioDuration\<rparr>]
          else audioChunks,
          audioDuration)))"

text \<open>An alternating event sequence Start, End, Start, End, ... from its (start, end) pairs.\<close>

definition alternating :: "(rat \<times> rat) list \<Rightarrow> silence list" where
  "alternating ps =
     concat (map (\<lambda>(s, e). [\<lparr>type = ''start'', time = s\<rparr>, \<lparr>type = ''end'', time = e\<rparr>]) ps)"


section \<open>The media engine and the file system\<close>

text \<open>
  Every decode, filter and encode is done by the external tool. A \<open>command\<close> is one
  invocation as the scripts build it:
  \<^item> \<open>Ffprobe p\<close>: \<open>ffmpeg.ffprobe(p, ...)\<close>;
  \<^item> \<open>SilenceDetect p\<close>: the \<open>silencedetect\<close> filter run on \<open>p\<close>, no file written;
  \<^item> \<open>GenSilence d out\<close>: input \<open>anullsrc\<close>, option \<open>-t d\<close>, saved to \<open>out\<close>;
  \<^item> \<open>Extract src s d out\<close>: \<open>setStartTime(s)\<close>, \<open>setDuration(d)\<close> on \<open>src\<close>, saved to \<open>out\<close>;
  \<^item> \<open>AppendSilence inp d out\<close>: filter \<open>anullsrc=...:d=d[silence];[0:a][silence]concat=n=2\<close>;
  \<^item> \<open>ConcatAudio inputs n out\<close>: the given inputs and the filter \<open>concat=n=n:v=0:a=1\<close>;
  \<^item> \<open>StreamLoop src k t out\<close>: input option \<open>-stream_loop k\<close>, output option \<open>-t t\<close>;
  \<^item> \<open>Mux v a out\<close>: video copied, audio re-encoded to AAC.
\<close>

datatype command =
    Ffprobe path
  | SilenceDetect path
  | GenSilence jsnum path
  | Extract path rat rat path
  | AppendSilence path jsnum path
  | ConcatAudio "path list" nat path
  | StreamLoop path jsnum rat path
  | Mux path path path

datatype error = EngineError command

text \<open>
  What a file holds, symbolically: a sequence of pieces. A file the run has not written
  holds itself (\<open>Original\<close>).
\<close>

datatype piece =
    Original path
  | Clip path rat rat
  | Silence jsnum
  | Looped path jsnum rat
  | Muxed path path

type_synonym content = "piece list"

text \<open>
  The environment of one run: what probing a file and running the silence detector on it
  give (\<open>None\<close>: the tool reports an error), whether a command ends with \<open>end\<close> or with
  \<open>error\<close>, the random folder name, and the script's directory.
\<close>

record world =
  ffprobe_duration :: "path \<Rightarrow> rat option"
  silencedetect_stderr :: "path \<Rightarrow> string list option"
  ffmpeg_ok :: "command \<Rightarrow> bool"
  randomBytes_hex :: string
  dirname :: path

text \<open>
  The state threaded through a run: the directories that exist, the files written so far,
  and every command issued to the engine, in order. \<open>fs.mkdirSync\<close> and \<open>fs.rmSync\<close> are
  modelled by their effect on this state; their own I/O failures are outside the model, and
  so is console output.
\<close>

record state =
  dirs :: "path set"
  files :: "path \<Rightarrow> content option"
  issued :: "command list"

definition reads :: "state \<Rightarrow> path \<Rightarrow> content" where
  "reads st p = (case files st p of Some c \<Rightarrow> c | None \<Rightarrow> [Original p])"

fun effect :: "state \<Rightarrow> command \<Rightarrow> (path \<times> content) option" where
  "effect st (Ffprobe p) = None"
| "effect st (SilenceDetect p) = None"
| "effect st (GenSilence d out) = Some (out, [Silence d])"
| "effect st (Extract src s d out) = Some (out, [Clip src s d])"
| "effect st (AppendSilence inp d out) = Some (out, reads st inp @ [Silence d])"
| "effect st (ConcatAudio inputs n out) = Some (out, concat (map (reads st) inputs))"
| "effect st (StreamLoop src k t out) = Some (out, [Looped src k t])"
| "effect st (Mux v a out) = Some (out, [Muxed v a])"

text \<open>
  A settled promise is \<open>Inl err\<close> (rejected) or \<open>Inr v\<close> (resolved), paired with the state
  it leaves. \<open>await\<close> is both \<open>await\<close> and \<open>.then(f)\<close>: a rejection skips the continuation.
\<close>

type_synonym 'a promise = "state \<Rightarrow> (error + 'a) \<times> state"

definition resolve :: "'a \<Rightarrow> 'a promise" where
  "resolve v st = (Inr v, st)"

definition await :: "'a promise \<Rightarrow> ('a \<Rightarrow> 'b promise) \<Rightarrow> 'b promise" where
  "await p k st = (case p st of (Inl e, st') \<Rightarrow> (Inl e, st') | (Inr v, st') \<Rightarrow> k v st')"

text \<open>
  One engine invocation wrapped in \<open>new Promise\<close>: the command is issued; on \<open>end\<close> its
  output file is written and the promise resolves, on \<open>error\<close> it rejects with the error.
\<close>

definition run :: "world \<Rightarrow> command \<Rightarrow> unit promise" where
  "run w c st =
     (let st' = st\<lparr>issued := issued st @ [c]\<rparr> in
      if ffmpeg_ok w c
      then (Inr (), (case effect st c of
                       Some (p, x) \<Rightarrow> st'\<lparr>files := (files st')(p \<mapsto> x)\<rparr>
                     | None \<Rightarrow> st'))
      else (Inl (EngineError c), st'))"

text \<open>
  \<open>Promise.all\<close> over an array of started promises. Every one of them is started; the model
  runs them in array order. The result is the array of their values in array order, or
  the error of the first one (in array order) that rejects.
\<close>

fun Promise_all :: "'a promise list \<Rightarrow> 'a list promise" where
  "Promise_all [] st = (Inr [], st)"
| "Promise_all (p # ps) st =
     (case p st of (r, st1) \<Rightarrow>
        (case Promise_all ps st1 of (rs, st2) \<Rightarrow>
           ((case r of
               Inl e \<Rightarrow> Inl e
             | Inr v \<Rightarrow> (case rs of Inl e \<Rightarrow> Inl e | Inr vs \<Rightarrow> Inr (v # vs))),
            st2)))"

definition getDuration :: "world \<Rightarrow> path \<Rightarrow> rat promise" where
  "getDuration w filePath st =
     (let st' = st\<lparr>issued := issued st @ [Ffprobe filePath]\<rparr> in
      case ffprobe_duration w filePath of
        None \<Rightarrow> (Inl (EngineError (Ffprobe filePath)), st')
      | Some duration \<Rightarrow> (Inr duration, st'))"

definition detectSilences :: "world \<Rightarrow> path \<Rightarrow> silence list promise" where
  "detectSilences w audioPath st =
     (let st' = st\<lparr>issued := issued st @ [SilenceDetect audioPath]\<rparr> in
      case silencedetect_stderr w audioPath of
        None \<Rightarrow> (Inl (EngineError (SilenceDetect audioPath)), st')
      | Some lines \<Rightarrow> (Inr (scrape lines), st'))"

section \<open>Padding the audio: the simple variant\<close>

text \<open>The \<open>reduce\<close> callback on the running \<open>total\<close>, with \<open>arr[idx - 1]\<close> carried along as \<open>prev\<close>.\<close>

fun reduce_silence :: "rat \<Rightarrow> silence option \<Rightarrow> silence list \<Rightarrow> rat" where
  "reduce_silence tot prev [] = tot"
| "reduce_silence tot prev (current # rest) =
     reduce_silence
       (case prev of
          Some p \<Rightarrow>
            if type current = ''end'' \<and> type p = ''start''
            then js_add tot (js_sub (time current) (time p)) else tot
        | None \<Rightarrow> tot)
       (Some current) rest"

definition totalSilenceTime_of :: "silence list \<Rightarrow> rat" where
  "totalSilenceTime_of silenceTimes = reduce_silence 0 None silenceTimes"

text \<open>
  The two \<open>.then\<close> callbacks are chained: whatever the first one returns, the original
  \<open>audioPath\<close> or the path of the new silence file, is the second one's \<open>silentFilePath\<close>.
\<close>

definition extendAudioWithSilence_simple :: "world \<Rightarrow> path \<Rightarrow> rat \<Rightarrow> path \<Rightarrow> path promise" where
  "extendAudioWithSilence_simple w audioPath videoDuration outputAudioPath =
     await
       (await (detectSilences w audioPath) (\<lambda>silenceTimes.
          let totalSilenceTime = totalSilenceTime_of silenceTimes;
              additionalSilenceNeeded = js_sub videoDuration totalSilenceTime
          in if additionalSilenceNeeded \<le> 0 then resolve audioPath
             else (let silenceDuration = min additionalSilenceNeeded 5;
                       silentFilePath = path_join (dirname w) ''silence.mp3''
                   in await (run w (GenSilence (Finite silenceDuration) silentFilePath))
                        (\<lambda>_. resolve silentFilePath))))
       (\<lambda>silentFilePath.
          await (run w (ConcatAudio [audioPath, silentFilePath] 2 outputAudioPath))
            (\<lambda>_. resolve outputAudioPath))"

section \<open>Padding the audio: the chunked variants\<close>

definition chunk_file :: "path \<Rightarrow> nat \<Rightarrow> path" where
  "chunk_file dir index = path_join dir (''chunk-'' @ String_of_nat index @ ''.mp3'')"

definition silence_file :: "path \<Rightarrow> nat \<Rightarrow> path" where
  "silence_file dir index = path_join dir (''silence-'' @ String_of_nat index @ ''.mp3'')"

definition merged_file :: "path \<Rightarrow> nat \<Rightarrow> path" where
  "merged_file dir index = path_join dir (''merged-'' @ String_of_nat index @ ''.mp3'')"

text \<open>\<open>array.map((x, index) => ...)\<close>: the elements with their indices.\<close>

definition indexed :: "'a list \<Rightarrow> ('a \<times> nat) list" where
  "indexed xs = zip xs [0..<length xs]"

text \<open>
  The last iteration: chunks and merged files live in \<open>tempDir\<close>, the silence is produced
  inside the merge command, and the final command gets one input per merged file. First
  the callback of \<open>audioChunks.map\<close>, which extracts one chunk.
\<close>

definition extract_chunk ::
    "world \<Rightarrow> path \<Rightarrow> path \<Rightarrow> jsnum \<Rightarrow> audioChunk \<times> nat \<Rightarrow> (path \<times> jsnum) promise" where
  "extract_chunk w audioPath tempDir silencePerChunk ci =
     (case ci of (chunk, index) \<Rightarrow>
        let chunkAudioPath = chunk_file tempDir index in
        await (run w (Extract audioPath (start chunk) (js_sub (end chunk) (start chunk))
                        chunkAudioPath))
          (\<lambda>_. resolve (chunkAudioPath, Math_min silencePerChunk 5)))"

text \<open>The callback of \<open>chunkResults.map\<close>: the chunk followed by its silence.\<close>

definition merge_chunk :: "world \<Rightarrow> path \<Rightarrow> (path \<times> jsnum) \<times> nat \<Rightarrow> path promise" where
  "merge_chunk w tempDir ri =
     (case ri of ((chunkAudioPath, silenceDuration), index) \<Rightarrow>
        let mergedFilePath = merged_file tempDir index in
        await (run w (AppendSilence chunkAudioPath silenceDuration mergedFilePath))
          (\<lambda>_. resolve mergedFilePath))"

text \<open>\<open>extendAudioWithSilence\<close> of the last iteration.\<close>

definition extendAudioWithSilence ::
    "world \<Rightarrow> path \<Rightarrow> rat \<Rightarrow> path \<Rightarrow> path \<Rightarrow> path promise" where
  "extendAudioWithSilence w audioPath videoDuration outputAudioPath tempDir =
     await (detectSilences w audioPath) (\<lambda>silenceTimes.
       case audioChunks_of silenceTimes of (audioChunks, audioDuration) \<Rightarrow>
         let totalSilenceNeeded = js_sub videoDuration audioDuration;
             silencePerChunk = js_div totalSilenceNeeded (of_nat (length audioChunks))
         in
         await (Promise_all
                  (map (extract_chunk w audioPath tempDir silencePerChunk) (indexed audioChunks)))
         (\<lambda>chunkResults.
         await (Promise_all (map (merge_chunk w tempDir) (indexed chunkResults)))
         (\<lambda>mergedFiles.
         await (run w (ConcatAudio mergedFiles (length mergedFiles) outputAudioPath))
           (\<lambda>_. resolve outputAudioPath))))"

text \<open>
  The iteration before it: files in the script's directory, one silence file per chunk
  (made once the chunk is extracted), merged files named after the chunk's base name, and
  a final command whose single input is the merged paths joined with a bar.
\<close>

definition basename :: "path \<Rightarrow> string" where
  "basename p = rev (takeWhile (\<lambda>c. c \<noteq> CHR ''/'') (rev p))"

fun join_bar :: "path list \<Rightarrow> path" where
  "join_bar [] = []"
| "join_bar [p] = p"
| "join_bar (p # q # ps) = p @ ''|'' @ join_bar (q # ps)"

definition extendAudioWithSilence_files :: "world \<Rightarrow> path \<Rightarrow> rat \<Rightarrow> path \<Rightarrow> path promise" where
  "extendAudioWithSilence_files w audioPath videoDuration outputAudioPath =
     await (detectSilences w audioPath) (\<lambda>silenceTimes.
       case audioChunks_of silenceTimes of (audioChunks, audioDuration) \<Rightarrow>
         let totalSilenceNeeded = js_sub videoDuration audioDuration;
             silencePerChunk = js_div totalSilenceNeeded (of_nat (length audioChunks))
         in
         await (Promise_all (map (\<lambda>(chunk, index).
                   let chunkAudioPath = chunk_file (dirname w) index in
                   await (run w (Extract audioPath (start chunk)
                                   (js_sub (end chunk) (start chunk)) chunkAudioPath))
                     (\<lambda>_. let silenceDuration = Math_min silencePerChunk 5;
                              silentFilePath = silence_file (dirname w) index
                          in await (run w (GenSilence silenceDuration silentFilePath))
                               (\<lambda>_. resolve (chunkAudioPath, silentFilePath))))
                 (indexed audioChunks)))
         (\<lambda>results.
         await (Promise_all (map (\<lambda>(chunkAudioPath, silentFilePath).
                   let mergedFilePath =
                         path_join (dirname w) (''merged-'' @ basename chunkAudioPath)
                   in await (run w (ConcatAudio [chunkAudioPath, silentFilePath] 2 mergedFilePath))
                        (\<lambda>_. resolve mergedFilePath))
                 results))
         (\<lambda>mergedFiles.
         await (run w (ConcatAudio [join_bar mergedFiles] (length mergedFiles) outputAudioPath))
           (\<lambda>_. resolve outputAudioPath))))"

section \<open>Looping the video, muxing, and the two orchestrators\<close>

definition loopCount_of :: "rat \<Rightarrow> rat \<Rightarrow> jsnum" where
  "loopCount_of videoDuration audioDuration = Math_ceil (js_div audioDuration videoDuration)"

definition loopVideo :: "world \<Rightarrow> path \<Rightarrow> rat \<Rightarrow> rat \<Rightarrow> path \<Rightarrow> path promise" where
  "loopVideo w videoPath videoDuration audioDuration outputLoopedVideoPath =
     (if audioDuration \<le> videoDuration then resolve videoPath
      else (let loopCount = loopCount_of videoDuration audioDuration in
            await (run w (StreamLoop videoPath (js_minus loopCount 1) audioDuration
                            outputLoopedVideoPath))
              (\<lambda>_. resolve outputLoopedVideoPath)))"

text \<open>The promise-returning \<open>mergeAudioVideo\<close> of the earlier iterations: one mux command.\<close>

definition mergeAudioVideo_mux :: "world \<Rightarrow> path \<Rightarrow> path \<Rightarrow> path \<Rightarrow> path promise" where
  "mergeAudioVideo_mux w videoPath extendedAudioPath outputVideoPath =
     await (run w (Mux videoPath extendedAudioPath outputVideoPath))
       (\<lambda>_. resolve outputVideoPath)"

text \<open>
  \<open>processMedia\<close>: the body of its \<open>try\<close>. The value is what the script prints,
  \<open>Inr outputPath\<close> through \<open>console.log\<close> or \<open>Inl err\<close> through \<open>console.error\<close> in the
  \<open>catch\<close>. The paths are the script's constants.
\<close>

definition processMedia :: "world \<Rightarrow> path promise" where
  "processMedia w =
     (let videoFilePath = path_join (dirname w) ''looped-input-video.mp4'';
          audioFilePath = path_join (dirname w) ''input-audio.mp3'';
          outputLoopedVideoPath = path_join (dirname w) ''looped-video.mp4'';
          outputVideoWithAudioPath = path_join (dirname w) ''output-video-with-audio.mp4'';
          extendedAudioPath = path_join (dirname w) ''extended-audio.mp3''
      in
      await (getDuration w videoFilePath) (\<lambda>videoDuration.
      await (getDuration w audioFilePath) (\<lambda>audioDuration.
      await (if audioDuration > videoDuration then
               await (loopVideo w videoFilePath videoDuration audioDuration outputLoopedVideoPath)
                 (\<lambda>finalVideoPath. resolve (audioFilePath, finalVideoPath))
             else if videoDuration > audioDuration then
               await (extendAudioWithSilence_files w audioFilePath videoDuration extendedAudioPath)
                 (\<lambda>finalAudioPath. resolve (finalAudioPath, videoFilePath))
             else resolve (audioFilePath, videoFilePath))
        (\<lambda>(finalAudioPath, finalVideoPath).
           mergeAudioVideo_mux w finalVideoPath finalAudioPath outputVideoWithAudioPath))))"

text \<open>\<open>path.join(__dirname, generateRandomFolderName())\<close>.\<close>

definition tempDir_of :: "world \<Rightarrow> path" where
  "tempDir_of w = path_join (dirname w) (randomBytes_hex w)"

definition createTempDirectory :: "world \<Rightarrow> state \<Rightarrow> path \<times> state" where
  "createTempDirectory w st =
     (let tempDir = tempDir_of w
      in (tempDir, st\<lparr>dirs := insert tempDir (dirs st)\<rparr>))"

definition inside :: "path \<Rightarrow> path \<Rightarrow> bool" where
  "inside dir p = (p = dir \<or> prefix (dir @ ''/'') p)"

text \<open>\<open>fs.rmSync(dir, { recursive: true, force: true })\<close>.\<close>

definition rmSync :: "path \<Rightarrow> state \<Rightarrow> state" where
  "rmSync dir st =
     st\<lparr>dirs := Set.filter (\<lambda>d. \<not> inside dir d) (dirs st),
        files := (\<lambda>p. if inside dir p then None else files st p)\<rparr>"

text \<open>The body of the \<open>try\<close> of the last iteration's \<open>mergeAudioVideo\<close>.\<close>

definition mergeAudioVideo_try :: "world \<Rightarrow> path \<Rightarrow> path \<Rightarrow> path \<Rightarrow> path \<Rightarrow> unit promise" where
  "mergeAudioVideo_try w videoPath audioPath outputPath tempDir =
     await (getDuration w videoPath) (\<lambda>videoDuration.
     await (getDuration w audioPath) (\<lambda>audioDuration.
       let outputAudioPath = path_join tempDir ''extended-audio.mp3'';
           outputLoopedVideoPath = path_join tempDir ''looped-video.mp4''
       in
       await (extendAudioWithSilence w audioPath videoDuration outputAudioPath tempDir) (\<lambda>_.
       await (loopVideo w videoPath videoDuration audioDuration outputLoopedVideoPath) (\<lambda>_.
       await (run w (Mux outputLoopedVideoPath outputAudioPath outputPath)) (\<lambda>_.
       resolve ())))))"

text \<open>
  \<open>mergeAudioVideo\<close> of the last iteration: the temporary directory is made before the
  \<open>try\<close>; the \<open>catch\<close> only logs the error; the \<open>finally\<close> removes the directory. The
  function has no \<open>return\<close> and no \<open>throw\<close> after the \<open>try\<close>, so what its caller sees is
  computed from the outcome of the \<open>try\<close> by the \<open>catch\<close>.
\<close>

definition mergeAudioVideo :: "world \<Rightarrow> path \<Rightarrow> path \<Rightarrow> path \<Rightarrow> unit promise" where
  "mergeAudioVideo w videoPath audioPath outputPath st =
     (case createTempDirectory w st of (tempDir, st1) \<Rightarrow>
        (case mergeAudioVideo_try w videoPath audioPath outputPath tempDir st1 of
           (Inl error, st2) \<Rightarrow> (Inr (), rmSync tempDir st2)
         | (Inr _, st2) \<Rightarrow> (Inr (), rmSync tempDir st2)))"

section \<open>Concrete environments\<close>

text \<open>
  An environment in which probing \<open>videoPath\<close> gives \<open>videoDuration\<close>, probing any other
  file gives \<open>audioDuration\<close>, the silence detector prints \<open>lines\<close>, and \<open>ok\<close> decides
  which commands succeed; and the state before a run.
\<close>

definition example_world ::
    "path \<Rightarrow> rat option \<Rightarrow> rat option \<Rightarrow> string list option \<Rightarrow> (command \<Rightarrow> bool) \<Rightarrow> world" where
  "example_world videoPath videoDuration audioDuration lines ok =
     \<lparr>ffprobe_duration = (\<lambda>p. if p = videoPath then videoDuration else audioDuration),
      silencedetect_stderr = (\<lambda>p. lines),
      ffmpeg_ok = ok,
      randomBytes_hex = ''9f86d081884c7d659a2feaa0c55ad015'',
      dirname = ''/app''\<rparr>"

definition fresh :: state where
  "fresh = \<lparr>dirs = {}, files = (\<lambda>p. None), issued = []\<rparr>"

text \<open>The detector's output for silences from 2 to 4 and from 9 to 9.5 seconds.\<close>

definition two_silences :: "string list" where
  "two_silences =
     [''[silencedetect @ 0x5581] silence_start: 2.0'',
      ''[silencedetect @ 0x5581] silence_end: 4.0 | silence_duration: 2.0'',
      ''[silencedetect @ 0x5581] silence_start: 9.0'',
      ''[silencedetect @ 0x5581] silence_end: 9.5 | silence_duration: 0.5'']"

text \<open>The detector's output for one silence from 0.5 to 11 seconds.\<close>

definition long_silence :: "string list" where
  "long_silence =
     [''[silencedetect @ 0x5581] silence_start: 0.5'',
      ''[silencedetect @ 0x5581] silence_end: 11.0 | silence_duration: 10.5'']"

section \<open>Rounding to binary64\<close>

lemma roundTiesToEven_le: "m \<le> of_int K \<Longrightarrow> roundTiesToEven m \<le> K"
proof -
  assume a: "m \<le> of_int K"
  then have f: "\<lfloor>m\<rfloor> \<le> K" by (simp add: floor_le_iff)
  show ?thesis
  proof (cases "\<lfloor>m\<rfloor> = K")
    case True
    with a have "m - of_int \<lfloor>m\<rfloor> \<le> 0" by simp
    then show ?thesis using True by (simp add: roundTiesToEven_def Let_def)
  next
    case False
    with f have "\<lfloor>m\<rfloor> + 1 \<le> K" by simp
    then show ?thesis by (simp add: roundTiesToEven_def Let_def)
  qed
qed

lemma roundTiesToEven_ge: "of_int K \<le> m \<Longrightarrow> K \<le> roundTiesToEven m"
proof -
  assume "of_int K \<le> m"
  then have "K \<le> \<lfloor>m\<rfloor>" by (simp add: le_floor_iff)
  then show ?thesis by (simp add: roundTiesToEven_def Let_def)
qed

lemma roundTiesToEven_err: "\<bar>of_int (roundTiesToEven m) - m\<bar> \<le> 1 / 2"
proof -
  define f where "f = \<lfloor>m\<rfloor>"
  have b: "of_int f \<le> m" "m < of_int f + 1" unfolding f_def by linarith+
  have r: "roundTiesToEven m = f \<or> roundTiesToEven m = f + 1"
    by (simp add: roundTiesToEven_def Let_def f_def)
  show ?thesis
  proof (cases "m - of_int f < 1 / 2")
    case True
    then have "roundTiesToEven m = f" by (simp add: roundTiesToEven_def Let_def f_def)
    with b True show ?thesis by (simp add: abs_if; (linarith)?)
  next
    case False
    show ?thesis
    proof (cases "1 / 2 < m - of_int f")
      case True
      with False have "roundTiesToEven m = f + 1" by (simp add: roundTiesToEven_def Let_def f_def)
      with b True show ?thesis by (simp add: abs_if; (linarith)?)
    next
      case F2: False
      with False have h: "m - of_int f = 1 / 2" by linarith
      from r show ?thesis
      proof
        assume "roundTiesToEven m = f"
        with h show ?thesis by (simp add: abs_if; (linarith)?)
      next
        assume "roundTiesToEven m = f + 1"
        with h show ?thesis by (simp add: abs_if; (linarith)?)
      qed
    qed
  qed
qed

lemma ilog2_bounds:
  assumes "1 \<le> x"
  shows "0 \<le> ilog2 x" and "2 ^ nat (ilog2 x) \<le> x" and "x < 2 * 2 ^ nat (ilog2 x)"
proof -
  from assms have pos: "0 < \<lfloor>x\<rfloor>" by simp
  from bitlen_bounds[OF pos] have b: "2 ^ nat (bitlen \<lfloor>x\<rfloor> - 1) \<le> \<lfloor>x\<rfloor>" "\<lfloor>x\<rfloor> < 2 ^ nat (bitlen \<lfloor>x\<rfloor>)"
    by simp_all
  from pos have b1: "1 \<le> bitlen \<lfloor>x\<rfloor>" by (simp add: bitlen_alt_def)
  have e: "ilog2 x = bitlen \<lfloor>x\<rfloor> - 1" using assms by (simp add: ilog2_def)
  show "0 \<le> ilog2 x" using b1 e by simp
  have "(of_int (2 ^ nat (bitlen \<lfloor>x\<rfloor> - 1)) :: rat) \<le> of_int \<lfloor>x\<rfloor>" using b(1) by (simp only: of_int_le_iff)
  also have "\<dots> \<le> x" by simp
  finally show "2 ^ nat (ilog2 x) \<le> x" by (simp add: e)
  have "\<lfloor>x\<rfloor> + 1 \<le> 2 ^ nat (bitlen \<lfloor>x\<rfloor>)" using b(2) by simp
  then have "(of_int (\<lfloor>x\<rfloor> + 1) :: rat) \<le> of_int (2 ^ nat (bitlen \<lfloor>x\<rfloor>))" by (simp only: of_int_le_iff)
  moreover have "x < of_int (\<lfloor>x\<rfloor> + 1)" by simp linarith
  ultimately have "x < 2 ^ nat (bitlen \<lfloor>x\<rfloor>)" by simp
  moreover have "nat (bitlen \<lfloor>x\<rfloor>) = Suc (nat (bitlen \<lfloor>x\<rfloor> - 1))" using b1 by simp
  ultimately show "x < 2 * 2 ^ nat (ilog2 x)" by (simp add: e)
qed

text \<open>
  Between 1 and \<open>2 ^ 53\<close> the rounding is to a multiple of \<open>1 / 2 ^ d\<close> for some \<open>d\<close>,
  and the scaled number is at least \<open>2 ^ 52\<close>.
\<close>

lemma fl64_small:
  assumes "1 \<le> x" "x < 2 ^ 53"
  shows "\<exists>d. fl64 x = of_int (roundTiesToEven (x * 2 ^ d)) / 2 ^ d \<and> 2 ^ 52 \<le> x * 2 ^ d"
proof -
  define e where "e = ilog2 x"
  from ilog2_bounds[OF assms(1)] have e0: "0 \<le> e" and lo: "2 ^ nat e \<le> x" and hi: "x < 2 * 2 ^ nat e"
    by (simp_all add: e_def)
  have "(2::rat) ^ nat e < 2 ^ 53" using lo assms(2) by linarith
  then have "nat e < 53" by (rule power_less_imp_less_exp[of "2::rat", rotated]) simp
  then have e52: "e \<le> 52" by simp
  define d where "d = nat (52 - e)"
  have ulp: "(2::rat) powi (e - 52) = 1 / 2 ^ d"
    using e52 by (simp add: power_int_def d_def field_simps)
  have mx: "max e (- 1022) = e" using e0 by simp
  have "fl64 x = of_int (roundTiesToEven (x / (1 / 2 ^ d))) * (1 / 2 ^ d)"
    using assms(1) by (simp add: fl64_def fl64_pos_def Let_def e_def[symmetric] mx ulp)
  then have 1: "fl64 x = of_int (roundTiesToEven (x * 2 ^ d)) / 2 ^ d" by simp
  have "nat e + d = 52" using e0 e52 by (simp add: d_def)
  then have "(2::rat) ^ 52 = 2 ^ nat e * 2 ^ d" by (simp add: power_add[symmetric])
  also have "\<dots> \<le> x * 2 ^ d" using lo by simp
  finally have 2: "2 ^ 52 \<le> x * 2 ^ d" .
  from 1 2 show ?thesis by blast
qed

lemma fl64_le_int:
  assumes "1 \<le> x" "x < 2 ^ 53" "x \<le> of_int k"
  shows "fl64 x \<le> of_int k"
proof -
  from fl64_small[OF assms(1,2)] obtain d where
    f: "fl64 x = of_int (roundTiesToEven (x * 2 ^ d)) / 2 ^ d" by blast
  have "x * 2 ^ d \<le> of_int (k * 2 ^ d)" using assms(3) by simp
  then have "roundTiesToEven (x * 2 ^ d) \<le> k * 2 ^ d" by (rule roundTiesToEven_le)
  then have "(of_int (roundTiesToEven (x * 2 ^ d)) :: rat) \<le> of_int (k * 2 ^ d)"
    by (simp only: of_int_le_iff)
  then show ?thesis by (simp add: f field_simps)
qed

lemma fl64_ge_int:
  assumes "1 \<le> x" "x < 2 ^ 53" "of_int k \<le> x"
  shows "of_int k \<le> fl64 x"
proof -
  from fl64_small[OF assms(1,2)] obtain d where
    f: "fl64 x = of_int (roundTiesToEven (x * 2 ^ d)) / 2 ^ d" by blast
  have "of_int (k * 2 ^ d) \<le> x * 2 ^ d" using assms(3) by simp
  then have "k * 2 ^ d \<le> roundTiesToEven (x * 2 ^ d)" by (rule roundTiesToEven_ge)
  then have "(of_int (k * 2 ^ d) :: rat) \<le> of_int (roundTiesToEven (x * 2 ^ d))"
    by (simp only: of_int_le_iff)
  then show ?thesis by (simp add: f field_simps)
qed

lemma fl64_of_int:
  assumes "0 \<le> k" "k < 2 ^ 53"
  shows "fl64 (of_int k) = of_int k"
proof (cases "k = 0")
  case True
  then show ?thesis by (simp add: fl64_def)
next
  case False
  with assms have 1: "(1::rat) \<le> of_int k" by simp
  from assms(2) have "(of_int k :: rat) < of_int (2 ^ 53)" by (simp only: of_int_less_iff)
  then have 2: "(of_int k :: rat) < 2 ^ 53" by simp
  from fl64_le_int[OF 1 2, of k] fl64_ge_int[OF 1 2, of k] show ?thesis by simp
qed

lemma fl64_rel:
  assumes "1 \<le> x" "x < 2 ^ 53"
  shows "x * (1 - 1 / 2 ^ 53) \<le> fl64 x"
proof -
  from fl64_small[OF assms] obtain d where
    f: "fl64 x = of_int (roundTiesToEven (x * 2 ^ d)) / 2 ^ d" and big: "2 ^ 52 \<le> x * 2 ^ d" by blast
  define m where "m = x * 2 ^ d"
  have "m - 1 / 2 \<le> of_int (roundTiesToEven m)" using roundTiesToEven_err[of m] by linarith
  moreover have "1 / 2 \<le> m / 2 ^ 53" using big by (simp add: m_def)
  ultimately have le: "m * (1 - 1 / 2 ^ 53) \<le> of_int (roundTiesToEven m)" by (simp add: algebra_simps)
  have "m * (1 - 1 / 2 ^ 53) / 2 ^ d \<le> of_int (roundTiesToEven m) / 2 ^ d"
    by (rule divide_right_mono[OF le]) simp
  moreover have "m * (1 - 1 / 2 ^ 53) / 2 ^ d = x * (1 - 1 / 2 ^ 53)"
    unfolding m_def by (simp only: mult.assoc mult.commute[of "2 ^ d"]) simp
  ultimately show ?thesis unfolding f m_def by (simp only:)
qed



text \<open>The values that occur in the concrete environments.\<close>

lemma fl64_values:
  "fl64 2 = 2" "fl64 4 = 4" "fl64 5 = 5" "fl64 9 = 9" "fl64 10 = 10" "fl64 11 = 11"
  "fl64 (1 / 2) = 1 / 2" "fl64 (1 / 4) = 1 / 4" "fl64 (5 / 2) = 5 / 2" "fl64 (5 / 4) = 5 / 4"
  "fl64 (9 / 2) = 9 / 2" "fl64 (19 / 2) = 19 / 2" "fl64 (21 / 2) = 21 / 2"
  "fl64 (- (1 / 2)) = - (1 / 2)" "fl64 (- (9 / 2)) = - (9 / 2)" "fl64 (- (9 / 4)) = - (9 / 4)"
  by code_simp+

lemma js_div_Finite:
  assumes "y \<noteq> 0" "- (2 ^ 53) < fl64 (x / y)" "fl64 (x / y) < 2 ^ 53"
  shows "js_div x y = Finite (fl64 (x / y))"
proof -
  have "(2::rat) ^ 53 < 2 ^ 1024" by (rule power_strict_increasing) simp_all
  with assms show ?thesis by (simp add: js_div_def Let_def)
qed

section \<open>The scraper matches decimal timestamps only\<close>

lemma match_decimal_SomeD:
  assumes "match_decimal s = Some m"
  shows "\<exists>ip fp post. s = ip @ ''.'' @ fp @ post \<and> m = ip @ ''.'' @ fp \<and>
           ip \<noteq> [] \<and> fp \<noteq> [] \<and> list_all is_digit ip \<and> list_all is_digit fp"
proof -
  define ip where "ip = takeWhile is_digit s"
  define r where "r = dropWhile is_digit s"
  have s: "s = ip @ r" by (simp add: ip_def r_def)
  from assms have ip: "ip \<noteq> []"
    by (auto simp: match_decimal_def Let_def ip_def split: if_splits)
  from assms ip obtain r' where r: "r = CHR ''.'' # r'"
    by (auto simp: match_decimal_def Let_def ip_def r_def split: if_splits list.splits)
  define fp where "fp = takeWhile is_digit r'"
  from assms ip r have fp: "fp \<noteq> []" and m: "m = ip @ ''.'' @ fp"
    by (auto simp: match_decimal_def Let_def ip_def r_def fp_def split: if_splits list.splits)
  have "r' = fp @ dropWhile is_digit r'" by (simp add: fp_def)
  with s r have "s = ip @ ''.'' @ fp @ dropWhile is_digit r'" by simp
  moreover have "list_all is_digit ip" "list_all is_digit fp"
    by (simp_all add: ip_def fp_def list_all_iff) (auto dest: set_takeWhileD)
  ultimately show ?thesis using ip fp m by blast
qed

lemma match_at_SomeD:
  assumes "match_at key s = Some m"
  shows "\<exists>ip fp post. s = key @ ip @ ''.'' @ fp @ post \<and> m = ip @ ''.'' @ fp \<and>
           ip \<noteq> [] \<and> fp \<noteq> [] \<and> list_all is_digit ip \<and> list_all is_digit fp"
proof -
  from assms have p: "prefix key s" and d: "match_decimal (drop (length key) s) = Some m"
    by (auto simp: match_at_def split: if_splits)
  from p obtain rest where s: "s = key @ rest" by (auto simp: prefix_def)
  with d have "match_decimal rest = Some m" by simp
  from match_decimal_SomeD[OF this] s show ?thesis by auto
qed

lemma js_match_SomeD:
  "js_match key line = Some m \<Longrightarrow>
   \<exists>pre ip fp post. line = pre @ key @ ip @ ''.'' @ fp @ post \<and> m = ip @ ''.'' @ fp \<and>
      ip \<noteq> [] \<and> fp \<noteq> [] \<and> list_all is_digit ip \<and> list_all is_digit fp"
proof (induction line)
  case Nil
  then have "match_at key [] = Some m" by simp
  from match_at_SomeD[OF this] show ?case by (metis append_Nil)
next
  case (Cons c cs)
  show ?case
  proof (cases "match_at key (c # cs)")
    case (Some m')
    with Cons.prems have "match_at key (c # cs) = Some m" by simp
    from match_at_SomeD[OF this] show ?thesis by (metis append_Nil)
  next
    case None
    with Cons.prems have "js_match key cs = Some m" by simp
    from Cons.IH[OF this] obtain pre ip fp post where
      "cs = pre @ key @ ip @ ''.'' @ fp @ post" "m = ip @ ''.'' @ fp"
      "ip \<noteq> []" "fp \<noteq> []" "list_all is_digit ip" "list_all is_digit fp" by blast
    then have "c # cs = (c # pre) @ key @ ip @ ''.'' @ fp @ post" by simp
    with \<open>m = ip @ ''.'' @ fp\<close> \<open>ip \<noteq> []\<close> \<open>fp \<noteq> []\<close> \<open>list_all is_digit ip\<close> \<open>list_all is_digit fp\<close>
    show ?thesis by blast
  qed
qed

lemma dot_not_digit: "\<not> is_digit CHR ''.''"
  by (simp add: is_digit_def)

lemma takeWhile_digits_dot:
  "list_all is_digit ip \<Longrightarrow> takeWhile is_digit (ip @ CHR ''.'' # r) = ip"
  by (induction ip) (simp_all add: dot_not_digit)

lemma dropWhile_digits_dot:
  "list_all is_digit ip \<Longrightarrow> dropWhile is_digit (ip @ CHR ''.'' # r) = CHR ''.'' # r"
  by (induction ip) (simp_all add: dot_not_digit)

lemma takeWhile_digits_nonempty:
  "list_all is_digit fp \<Longrightarrow> fp \<noteq> [] \<Longrightarrow> takeWhile is_digit (fp @ post) \<noteq> []"
  by (cases fp) simp_all

lemma match_decimal_complete:
  assumes "ip \<noteq> []" "fp \<noteq> []" "list_all is_digit ip" "list_all is_digit fp"
  shows "match_decimal (ip @ ''.'' @ fp @ post) \<noteq> None"
  using assms
  by (simp add: match_decimal_def Let_def takeWhile_digits_dot dropWhile_digits_dot
      takeWhile_digits_nonempty)

lemma js_match_complete:
  assumes "ip \<noteq> []" "fp \<noteq> []" "list_all is_digit ip" "list_all is_digit fp"
  shows "js_match key (pre @ key @ ip @ ''.'' @ fp @ post) \<noteq> None"
proof (induction pre)
  case Nil
  have "match_at key (key @ ip @ ''.'' @ fp @ post) \<noteq> None"
    using match_decimal_complete[OF assms, of post] by (simp add: match_at_def)
  then show ?case
    by (cases "key @ ip @ ''.'' @ fp @ post") (auto split: option.splits)
next
  case (Cons c pre)
  then show ?case by (auto split: option.splits)
qed

lemma on_stderr_unchanged_iff:
  "on_stderr acc line = acc \<longleftrightarrow>
     js_match ''silence_start: '' line = None \<and> js_match ''silence_end: '' line = None"
  by (auto simp: on_stderr_def Let_def split: option.splits)

lemma on_stderr_pushes_iff:
  "on_stderr acc line \<noteq> acc \<longleftrightarrow> decimal_timestamp_line line"
proof
  assume "on_stderr acc line \<noteq> acc"
  then consider m where "js_match ''silence_start: '' line = Some m"
    | m where "js_match ''silence_end: '' line = Some m"
    by (auto simp: on_stderr_unchanged_iff)
  then show "decimal_timestamp_line line"
  proof cases
    case 1
    from js_match_SomeD[OF this] show ?thesis unfolding decimal_timestamp_line_def by blast
  next
    case 2
    from js_match_SomeD[OF this] show ?thesis unfolding decimal_timestamp_line_def by blast
  qed
next
  assume "decimal_timestamp_line line"
  then obtain key pre ip fp post where
    k: "key = ''silence_start: '' \<or> key = ''silence_end: ''" and
    l: "line = pre @ key @ ip @ ''.'' @ fp @ post" and
    d: "ip \<noteq> []" "fp \<noteq> []" "list_all is_digit ip" "list_all is_digit fp"
    unfolding decimal_timestamp_line_def by blast
  from js_match_complete[OF d, of key pre post] l have "js_match key line \<noteq> None" by simp
  with k show "on_stderr acc line \<noteq> acc" by (auto simp: on_stderr_unchanged_iff)
qed

lemma integer_start_dropped:
  "on_stderr [] ''[silencedetect @ 0x5581] silence_start: 3'' = []"
  by (simp add: on_stderr_def match_at_def match_decimal_def is_digit_def Let_def)

lemma end_without_start:
  "scrape [''[silencedetect @ 0x5581] silence_start: 3'',
           ''[silencedetect @ 0x5581] silence_end: 4.5 | silence_duration: 1.5'']
     = [\<lparr>type = ''end'', time = 9 / 2\<rparr>]"
  by (simp add: scrape_def on_stderr_def match_at_def match_decimal_def is_digit_def Let_def
      parseFloat_def digits_val_def digit_val_def fl64_values)

text \<open>
  Claim C9. The stderr handler pushes an event for a line exactly when the line carries,
  after \<open>silence_start: \<close> or \<open>silence_end: \<close>, a timestamp written as digits, a dot and
  digits. A line reporting the integer timestamp \<open>silence_start: 3\<close> pushes nothing, and
  when the matching end line follows with a decimal timestamp, the event stream is a lone
  \<open>end\<close> event with no \<open>start\<close> before it.
\<close>

theorem scraper_decimal_timestamps_only:
  "(on_stderr acc line \<noteq> acc \<longleftrightarrow> decimal_timestamp_line line) \<and>
   on_stderr [] ''[silencedetect @ 0x5581] silence_start: 3'' = [] \<and>
   scrape [''[silencedetect @ 0x5581] silence_start: 3'',
           ''[silencedetect @ 0x5581] silence_end: 4.5 | silence_duration: 1.5'']
     = [\<lparr>type = ''end'', time = 9 / 2\<rparr>]"
  using on_stderr_pushes_iff integer_start_dropped end_without_start by blast

section \<open>The chunks between the silences\<close>

lemma forEach_pair:
  "foldl forEach_silence (acc, r)
     [\<lparr>type = ''start'', time = s\<rparr>, \<lparr>type = ''end'', time = e\<rparr>] =
     (acc @ (if r < s then [\<lparr>start = r, end = s\<rparr>] else []), e)"
  by (simp add: forEach_silence_def)

lemma forEach_alternating:
  "foldl forEach_silence (acc, r) (alternating ps) =
     (acc @ filter (\<lambda>c. start c < end c)
              (map2 (\<lambda>r s. \<lparr>start = r, end = s\<rparr>) (r # map snd ps) (map fst ps)),
      last (r # map snd ps))"
proof (induction ps arbitrary: acc r)
  case Nil
  show ?case by (simp add: alternating_def)
next
  case (Cons p ps)
  obtain s e where p: "p = (s, e)" by (cases p)
  have "alternating (p # ps) =
      [\<lparr>type = ''start'', time = s\<rparr>, \<lparr>type = ''end'', time = e\<rparr>] @ alternating ps"
    by (simp add: alternating_def p)
  then have "foldl forEach_silence (acc, r) (alternating (p # ps)) =
      foldl forEach_silence (acc @ (if r < s then [\<lparr>start = r, end = s\<rparr>] else []), e)
        (alternating ps)"
    by (simp only: foldl_append forEach_pair)
  also have "\<dots> =
     ((acc @ (if r < s then [\<lparr>start = r, end = s\<rparr>] else [])) @
        filter (\<lambda>c. start c < end c)
          (map2 (\<lambda>r s. \<lparr>start = r, end = s\<rparr>) (e # map snd ps) (map fst ps)),
      last (e # map snd ps))"
    by (rule Cons.IH)
  finally show ?case by (simp add: p)
qed

lemma forEach_alternating_open:
  "foldl forEach_silence (acc, r) (alternating ps @ [\<lparr>type = ''start'', time = s\<rparr>]) =
     (acc @ filter (\<lambda>c. start c < end c)
              (map2 (\<lambda>r s. \<lparr>start = r, end = s\<rparr>) (r # map snd ps) (map fst ps @ [s])),
      last (r # map snd ps))"
proof (induction ps arbitrary: acc r)
  case Nil
  show ?case by (simp add: alternating_def forEach_silence_def)
next
  case (Cons p ps)
  obtain s0 e0 where p: "p = (s0, e0)" by (cases p)
  have "alternating (p # ps) @ [\<lparr>type = ''start'', time = s\<rparr>] =
      [\<lparr>type = ''start'', time = s0\<rparr>, \<lparr>type = ''end'', time = e0\<rparr>] @
      (alternating ps @ [\<lparr>type = ''start'', time = s\<rparr>])"
    by (simp add: alternating_def p)
  then have "foldl forEach_silence (acc, r) (alternating (p # ps) @ [\<lparr>type = ''start'', time = s\<rparr>]) =
      foldl forEach_silence (acc @ (if r < s0 then [\<lparr>start = r, end = s0\<rparr>] else []), e0)
        (alternating ps @ [\<lparr>type = ''start'', time = s\<rparr>])"
    by (simp only: foldl_append forEach_pair)
  also have "\<dots> =
     ((acc @ (if r < s0 then [\<lparr>start = r, end = s0\<rparr>] else [])) @
        filter (\<lambda>c. start c < end c)
          (map2 (\<lambda>r s. \<lparr>start = r, end = s\<rparr>) (e0 # map snd ps) (map fst ps @ [s])),
      last (e0 # map snd ps))"
    by (rule Cons.IH)
  finally show ?case by (simp add: p)
qed



text \<open>
  Claim C1, as amended. For an alternating event sequence Start s1, End e1, Start s2,
  End e2, ..., the walk over the events collects, in order, one chunk from the reference
  point to each Start time that lies strictly after the reference point, and no chunk for
  a Start at or before it; the reference point is 0 at first and the previous End time
  afterwards, and after the walk it is the last End time. The same holds when the sequence
  ends with a Start that has no End. For Start 2, End 4, Start 9, End 9.5 the walk collects
  (0, 2) and (4, 9) and ends with reference point 9.5. What happens after the last event is
  not part of this statement.
\<close>

theorem forEach_collects_chunks_before_starts:
  "foldl forEach_silence ([], 0) (alternating ps) =
     (filter (\<lambda>c. start c < end c)
        (map2 (\<lambda>r s. \<lparr>start = r, end = s\<rparr>) (0 # map snd ps) (map fst ps)),
      last (0 # map snd ps)) \<and>
   foldl forEach_silence ([], 0) (alternating ps @ [\<lparr>type = ''start'', time = s\<rparr>]) =
     (filter (\<lambda>c. start c < end c)
        (map2 (\<lambda>r s. \<lparr>start = r, end = s\<rparr>) (0 # map snd ps) (map fst ps @ [s])),
      last (0 # map snd ps)) \<and>
   foldl forEach_silence ([], 0) (alternating [(2, 4), (9, 19 / 2)]) =
     ([\<lparr>start = 0, end = 2\<rparr>, \<lparr>start = 4, end = 9\<rparr>], 19 / 2)"
  using forEach_alternating[of "[]" 0 ps] forEach_alternating_open[of "[]" 0 ps s]
    forEach_alternating[of "[]" 0 "[(2, 4), (9, 19 / 2)]"] by simp

text \<open>
  Claim C1 as stated fails: on the 10-second example the analyzer returns two chunks and
  not the three of the claim, since no trailing chunk is pushed; and a Start at the
  reference point (a track that begins with silence) gets no chunk at all.
\<close>

theorem analyzer_example_counterexample:
  "fst (audioChunks_of (alternating [(2, 4), (9, 19 / 2)])) \<noteq>
     [\<lparr>start = 0, end = 2\<rparr>, \<lparr>start = 4, end = 9\<rparr>, \<lparr>start = 19 / 2, end = 10\<rparr>] \<and>
   fst (audioChunks_of (alternating [(2, 4), (9, 19 / 2)])) =
     [\<lparr>start = 0, end = 2\<rparr>, \<lparr>start = 4, end = 9\<rparr>] \<and>
   fst (audioChunks_of (alternating [(0, 1)])) = []"
  by (simp add: audioChunks_of_def alternating_def forEach_silence_def)

text \<open>
  Claim C4. With zero silence events the analyzer should give one chunk spanning the whole
  track. The script gives none: \<open>audioDuration\<close> is set to \<open>lastEndTime\<close> just before
  the test \<open>audioDuration > lastEndTime\<close>, so the trailing chunk is never pushed, and the
  duration it works with is 0.
\<close>

theorem no_events_no_chunk:
  "audioChunks_of [] = ([], 0)"
  by (simp add: audioChunks_of_def)

section \<open>Evaluating the concrete environments\<close>

lemmas scrape_defs = scrape_def on_stderr_def match_at_def match_decimal_def is_digit_def
  parseFloat_def digits_val_def digit_val_def Let_def fl64_values

lemmas run_defs = await_def resolve_def run_def getDuration_def detectSilences_def Let_def
  path_join_def reads_def js_sub_def js_add_def js_div_Finite fl64_values

lemma scrape_two_silences:
  "scrape two_silences =
     [\<lparr>type = ''start'', time = 2\<rparr>, \<lparr>type = ''end'', time = 4\<rparr>,
      \<lparr>type = ''start'', time = 9\<rparr>, \<lparr>type = ''end'', time = 19 / 2\<rparr>]"
  by (simp add: two_silences_def scrape_defs)

lemma chunks_two_silences:
  "audioChunks_of (scrape two_silences) =
     ([\<lparr>start = 0, end = 2\<rparr>, \<lparr>start = 4, end = 9\<rparr>], 19 / 2)"
  by (simp add: scrape_two_silences audioChunks_of_def forEach_silence_def)

lemma scrape_long_silence:
  "scrape long_silence = [\<lparr>type = ''start'', time = 1 / 2\<rparr>, \<lparr>type = ''end'', time = 11\<rparr>]"
  by (simp add: long_silence_def scrape_defs)

section \<open>Chunked padding\<close>
























text \<open>
  Claim C3 as stated fails: with no chunk (here: no silence event at all) and a video of
  10 seconds, the padding issues no command that makes silence. After the silence
  detection its only command is the final concatenation, over zero inputs, and what that
  writes is not the audio followed by a silence of the deficit.
\<close>

theorem empty_chunks_no_trailing_silence:
  "issued (snd (extendAudioWithSilence
      (example_world ''/app/input-video.mp4'' (Some 10) (Some 4) (Some []) (\<lambda>c. True))
      ''/app/input-audio.mp3'' 10 ''/app/tmp/extended-audio.mp3'' ''/app/tmp'' fresh)) =
     [SilenceDetect ''/app/input-audio.mp3'', ConcatAudio [] 0 ''/app/tmp/extended-audio.mp3''] \<and>
   files (snd (extendAudioWithSilence
      (example_world ''/app/input-video.mp4'' (Some 10) (Some 4) (Some []) (\<lambda>c. True))
      ''/app/input-audio.mp3'' 10 ''/app/tmp/extended-audio.mp3'' ''/app/tmp'' fresh))
      ''/app/tmp/extended-audio.mp3'' = Some [] \<and>
   files (snd (extendAudioWithSilence
      (example_world ''/app/input-video.mp4'' (Some 10) (Some 4) (Some []) (\<lambda>c. True))
      ''/app/input-audio.mp3'' 10 ''/app/tmp/extended-audio.mp3'' ''/app/tmp'' fresh))
      ''/app/tmp/extended-audio.mp3'' \<noteq>
     Some [Original ''/app/input-audio.mp3'', Silence (Finite 6)]"
  by (simp add: extendAudioWithSilence_def audioChunks_of_def indexed_def example_world_def
      fresh_def scrape_def run_defs)

text \<open>
  Claim C3, as amended. When the chunk list is empty the division is not guarded: the
  silence per chunk is the (rounded) deficit divided by zero, which is not a finite number
  (Infinity, -Infinity or NaN), and it is never used. No chunk is extracted and no silence
  is made; after the silence detection the only command issued is the final concatenation
  over zero inputs, \<open>concat=n=0\<close>, to the output path.
\<close>

theorem empty_chunks_unguarded_division:
  assumes det: "silencedetect_stderr w audioPath = Some lines"
    and empty: "fst (audioChunks_of (scrape lines)) = []"
  shows "js_div (js_sub videoDuration (snd (audioChunks_of (scrape lines))))
           (of_nat (length (fst (audioChunks_of (scrape lines)))))
           \<in> {PosInfinity, NegInfinity, NaN} \<and>
         issued (snd (extendAudioWithSilence w audioPath videoDuration outputAudioPath tempDir st)) =
           issued st @ [SilenceDetect audioPath, ConcatAudio [] 0 outputAudioPath]"
proof -
  obtain cs dur where a: "audioChunks_of (scrape lines) = (cs, dur)"
    by (cases "audioChunks_of (scrape lines)")
  with empty have cs: "cs = []" by simp
  show ?thesis
    by (simp add: a cs js_div_def extendAudioWithSilence_def det indexed_def run_defs)
qed

theorem empty_chunks_unguarded_division_witness:
  "silencedetect_stderr
       (example_world ''/app/input-video.mp4'' (Some 10) (Some 4) (Some []) (\<lambda>c. True))
       ''/app/input-audio.mp3'' = Some [] \<and>
   fst (audioChunks_of (scrape [])) = [] \<and>
   js_div (js_sub 10 (snd (audioChunks_of (scrape []))))
     (of_nat (length (fst (audioChunks_of (scrape []))))) = PosInfinity \<and>
   issued (snd (extendAudioWithSilence
       (example_world ''/app/input-video.mp4'' (Some 10) (Some 4) (Some []) (\<lambda>c. True))
       ''/app/input-audio.mp3'' 10 ''/app/tmp/extended-audio.mp3'' ''/app/tmp'' fresh)) =
     [SilenceDetect ''/app/input-audio.mp3'', ConcatAudio [] 0 ''/app/tmp/extended-audio.mp3'']"
  using empty_chunks_unguarded_division[of
      "example_world ''/app/input-video.mp4'' (Some 10) (Some 4) (Some []) (\<lambda>c. True)"
      "''/app/input-audio.mp3''" "[]" 10 "''/app/tmp/extended-audio.mp3''" "''/app/tmp''" fresh]
  by (simp add: example_world_def fresh_def scrape_def audioChunks_of_def js_div_def js_sub_def
      fl64_values)

section \<open>Looping the video\<close>

lemma loopCount_facts:
  assumes v: "0 < v" and av: "v < a" and small: "a / v < 2 ^ 53"
  defines "n \<equiv> \<lceil>fl64 (a / v)\<rceil>"
  shows "js_div a v = Finite (fl64 (a / v))"
    and "(of_int n - 1) * v < a"
    and "a * (1 - 1 / 2 ^ 53) \<le> of_int n * v"
    and "js_sub (of_int n) 1 = of_int n - 1"
proof -
  define r where "r = a / v"
  define q where "q = fl64 r"
  have r1: "1 \<le> r" using v av by (simp add: r_def)
  have r53: "r < 2 ^ 53" using small by (simp add: r_def)
  have a: "a = r * v" using v by (simp add: r_def)
  have "r \<le> of_int (2 ^ 53)" using r53 by simp
  from fl64_le_int[OF r1 r53 this] have q53: "q \<le> 2 ^ 53" by (simp add: q_def)
  have "of_int 1 \<le> r" using r1 by simp
  from fl64_ge_int[OF r1 r53 this] have q1: "1 \<le> q" by (simp add: q_def)
  have "(2::rat) ^ 53 < 2 ^ 1024" by (rule power_strict_increasing) simp_all
  with q53 have fin: "\<not> 2 ^ 1024 \<le> q" by linarith
  have "(0::rat) < 2 ^ 1024" by (rule zero_less_power) simp
  with q1 have fin': "\<not> q \<le> - (2 ^ 1024)" by linarith
  show "js_div a v = Finite (fl64 (a / v))"
    using v fin fin' by (simp add: js_div_def Let_def q_def r_def)
  have n: "n = \<lceil>q\<rceil>" by (simp add: n_def q_def r_def)
  have lo: "of_int n - 1 < q" and hi: "q \<le> of_int n" unfolding n by linarith+
  show "(of_int n - 1) * v < a"
  proof (rule ccontr)
    assume "\<not> (of_int n - 1) * v < a"
    then have "r * v \<le> (of_int n - 1) * v" using a by simp
    with v have "r \<le> of_int (n - 1)" by simp
    from fl64_le_int[OF r1 r53 this] have "q \<le> of_int n - 1" by (simp add: q_def)
    with lo show False by simp
  qed
  have "r * (1 - 1 / 2 ^ 53) \<le> q" unfolding q_def by (rule fl64_rel[OF r1 r53])
  then have "r * (1 - 1 / 2 ^ 53) \<le> of_int n" using hi by (rule order_trans)
  then have "r * (1 - 1 / 2 ^ 53) * v \<le> of_int n * v" using v by (simp only: mult_le_cancel_right) simp
  then show "a * (1 - 1 / 2 ^ 53) \<le> of_int n * v" by (simp only: a mult.assoc mult.commute[of v])
  from q1 hi have n1: "1 \<le> n" by linarith
  from lo q53 have "(of_int (n - 1) :: rat) < of_int (2 ^ 53)" by simp
  then have "n - 1 < 2 ^ 53" by (simp only: of_int_less_iff)
  with n1 fl64_of_int[of "n - 1"] show "js_sub (of_int n) 1 = of_int n - 1"
    by (simp add: js_sub_def)
qed

lemma ceil_fl64_12_5: "\<lceil>fl64 (12 / 5)\<rceil> = 3"
  by code_simp

text \<open>
  Claim C5 as stated fails. Take the binary64 values nearest to 2.4 and 7.2 as the video's
  and the audio's duration. Their quotient rounds to exactly 3, so loopCount is 3, and
  3 * videoDuration is less than audioDuration, both exactly and as a binary64 product.
\<close>

theorem loopCount_rounding_counterexample:
  "0 < fl64 (12 / 5) \<and> fl64 (12 / 5) < fl64 (36 / 5) \<and>
   loopCount_of (fl64 (12 / 5)) (fl64 (36 / 5)) = Finite 3 \<and>
   3 * fl64 (12 / 5) < fl64 (36 / 5) \<and>
   fl64 (3 * fl64 (12 / 5)) < fl64 (36 / 5)"
  by code_simp

text \<open>
  Claim C5, as amended. For positive durations with the audio longer than the video (and
  fewer than 2^53 loops), loopCount is the ceiling of the binary64 quotient
  audioDuration / videoDuration. (loopCount - 1) * videoDuration is less than
  audioDuration; loopCount * videoDuration reaches audioDuration only up to the rounding
  of the quotient: it is at least audioDuration * (1 - 2^-53). The command issued loops
  the input loopCount - 1 more times and trims the output to exactly audioDuration
  (\<open>-t audioDuration\<close>); when it succeeds the looped file is written and its path is the
  result, and when it fails the promise rejects.
\<close>

theorem loopCount_is_ceiling:
  assumes "0 < videoDuration" "videoDuration < audioDuration"
    and "audioDuration / videoDuration < 2 ^ 53"
  shows "loopCount_of videoDuration audioDuration =
           Finite (of_int \<lceil>fl64 (audioDuration / videoDuration)\<rceil>) \<and>
         (of_int \<lceil>fl64 (audioDuration / videoDuration)\<rceil> - 1) * videoDuration < audioDuration \<and>
         audioDuration * (1 - 1 / 2 ^ 53) \<le>
           of_int \<lceil>fl64 (audioDuration / videoDuration)\<rceil> * videoDuration \<and>
         loopVideo w videoPath videoDuration audioDuration outputLoopedVideoPath st =
           (if ffmpeg_ok w (StreamLoop videoPath
                  (Finite (of_int \<lceil>fl64 (audioDuration / videoDuration)\<rceil> - 1))
                  audioDuration outputLoopedVideoPath)
            then (Inr outputLoopedVideoPath,
                  st\<lparr>issued := issued st @
                       [StreamLoop videoPath
                          (Finite (of_int \<lceil>fl64 (audioDuration / videoDuration)\<rceil> - 1))
                          audioDuration outputLoopedVideoPath],
                     files := (files st)(outputLoopedVideoPath \<mapsto>
                       [Looped videoPath
                          (Finite (of_int \<lceil>fl64 (audioDuration / videoDuration)\<rceil> - 1))
                          audioDuration])\<rparr>)
            else (Inl (EngineError (StreamLoop videoPath
                         (Finite (of_int \<lceil>fl64 (audioDuration / videoDuration)\<rceil> - 1))
                         audioDuration outputLoopedVideoPath)),
                  st\<lparr>issued := issued st @
                       [StreamLoop videoPath
                          (Finite (of_int \<lceil>fl64 (audioDuration / videoDuration)\<rceil> - 1))
                          audioDuration outputLoopedVideoPath]\<rparr>))"
  using assms loopCount_facts[OF assms]
  by (simp add: loopCount_of_def loopVideo_def await_def run_def resolve_def Let_def)


theorem loopCount_is_ceiling_witness:
  "(0::rat) < 5 \<and> (5::rat) < 12 \<and> (12::rat) / 5 < 2 ^ 53 \<and>
   loopCount_of 5 12 = Finite 3 \<and> ((3::rat) - 1) * 5 < 12 \<and>
   (12::rat) * (1 - 1 / 2 ^ 53) \<le> 3 * 5 \<and>
   loopVideo (example_world ''/app/input-video.mp4'' (Some 5) (Some 12) (Some []) (\<lambda>c. True))
       ''/app/input-video.mp4'' 5 12 ''/app/tmp/looped-video.mp4'' fresh =
     (Inr ''/app/tmp/looped-video.mp4'',
      fresh\<lparr>issued :=
               [StreamLoop ''/app/input-video.mp4'' (Finite 2) 12 ''/app/tmp/looped-video.mp4''],
            files := (files fresh)(''/app/tmp/looped-video.mp4'' \<mapsto>
               [Looped ''/app/input-video.mp4'' (Finite 2) 12])\<rparr>)"
  using loopCount_is_ceiling[of 5 12
      "example_world ''/app/input-video.mp4'' (Some 5) (Some 12) (Some []) (\<lambda>c. True)"
      "''/app/input-video.mp4''" "''/app/tmp/looped-video.mp4''" fresh]
  by (simp add: ceil_fl64_12_5 fresh_def example_world_def)

section \<open>Equal durations\<close>

lemma mergeAudioVideo_pads_equal_durations:
  "issued (snd (mergeAudioVideo
      (example_world ''/app/input-video.mp4'' (Some 10) (Some 10) (Some two_silences) (\<lambda>c. True))
      ''/app/input-video.mp4'' ''/app/input-audio.mp3'' ''/app/merged_video.mp4'' fresh)) =
     [Ffprobe ''/app/input-video.mp4'', Ffprobe ''/app/input-audio.mp3'',
      SilenceDetect ''/app/input-audio.mp3'',
      Extract ''/app/input-audio.mp3'' 0 2 ''/app/9f86d081884c7d659a2feaa0c55ad015/chunk-0.mp3'',
      Extract ''/app/input-audio.mp3'' 4 5 ''/app/9f86d081884c7d659a2feaa0c55ad015/chunk-1.mp3'',
      AppendSilence ''/app/9f86d081884c7d659a2feaa0c55ad015/chunk-0.mp3'' (Finite (1 / 4))
        ''/app/9f86d081884c7d659a2feaa0c55ad015/merged-0.mp3'',
      AppendSilence ''/app/9f86d081884c7d659a2feaa0c55ad015/chunk-1.mp3'' (Finite (1 / 4))
        ''/app/9f86d081884c7d659a2feaa0c55ad015/merged-1.mp3'',
      ConcatAudio [''/app/9f86d081884c7d659a2feaa0c55ad015/merged-0.mp3'',
                   ''/app/9f86d081884c7d659a2feaa0c55ad015/merged-1.mp3''] 2
        ''/app/9f86d081884c7d659a2feaa0c55ad015/extended-audio.mp3'',
      Mux ''/app/9f86d081884c7d659a2feaa0c55ad015/looped-video.mp4''
        ''/app/9f86d081884c7d659a2feaa0c55ad015/extended-audio.mp3'' ''/app/merged_video.mp4'']"
  by (simp add: mergeAudioVideo_def mergeAudioVideo_try_def createTempDirectory_def tempDir_of_def
      rmSync_def extendAudioWithSilence_def extract_chunk_def merge_chunk_def loopVideo_def
      chunk_file_def merged_file_def indexed_def String_of_nat.simps upt_rec
      chunks_two_silences example_world_def fresh_def run_defs)

lemma processMedia_pads_within_a_microsecond:
  "issued (snd (processMedia
      (example_world ''/app/looped-input-video.mp4'' (Some 10) (Some (9999999 / 1000000))
         (Some two_silences) (\<lambda>c. True))
      fresh)) =
     [Ffprobe ''/app/looped-input-video.mp4'', Ffprobe ''/app/input-audio.mp3'',
      SilenceDetect ''/app/input-audio.mp3'',
      Extract ''/app/input-audio.mp3'' 0 2 ''/app/chunk-0.mp3'',
      GenSilence (Finite (1 / 4)) ''/app/silence-0.mp3'',
      Extract ''/app/input-audio.mp3'' 4 5 ''/app/chunk-1.mp3'',
      GenSilence (Finite (1 / 4)) ''/app/silence-1.mp3'',
      ConcatAudio [''/app/chunk-0.mp3'', ''/app/silence-0.mp3''] 2 ''/app/merged-chunk-0.mp3'',
      ConcatAudio [''/app/chunk-1.mp3'', ''/app/silence-1.mp3''] 2 ''/app/merged-chunk-1.mp3'',
      ConcatAudio [''/app/merged-chunk-0.mp3|/app/merged-chunk-1.mp3''] 2
        ''/app/extended-audio.mp3'',
      Mux ''/app/looped-input-video.mp4'' ''/app/extended-audio.mp3''
        ''/app/output-video-with-audio.mp4'']"
  by (simp add: processMedia_def extendAudioWithSilence_files_def mergeAudioVideo_mux_def loopVideo_def
      basename_def chunk_file_def silence_file_def indexed_def String_of_nat.simps upt_rec
      chunks_two_silences example_world_def fresh_def run_defs)

text \<open>
  Claim C6 as stated fails twice. In the last iteration's \<open>mergeAudioVideo\<close> the padding
  runs whatever the durations are: with video and audio both exactly 10 seconds long it
  extracts two chunks and appends a quarter of a second of silence to each. And
  \<open>processMedia\<close> compares the durations exactly: with the audio one microsecond shorter
  than the video it pads, making two silence files.
\<close>

theorem equal_durations_still_padded:
  "issued (snd (mergeAudioVideo
      (example_world ''/app/input-video.mp4'' (Some 10) (Some 10) (Some two_silences) (\<lambda>c. True))
      ''/app/input-video.mp4'' ''/app/input-audio.mp3'' ''/app/merged_video.mp4'' fresh)) =
     [Ffprobe ''/app/input-video.mp4'', Ffprobe ''/app/input-audio.mp3'',
      SilenceDetect ''/app/input-audio.mp3'',
      Extract ''/app/input-audio.mp3'' 0 2 ''/app/9f86d081884c7d659a2feaa0c55ad015/chunk-0.mp3'',
      Extract ''/app/input-audio.mp3'' 4 5 ''/app/9f86d081884c7d659a2feaa0c55ad015/chunk-1.mp3'',
      AppendSilence ''/app/9f86d081884c7d659a2feaa0c55ad015/chunk-0.mp3'' (Finite (1 / 4))
        ''/app/9f86d081884c7d659a2feaa0c55ad015/merged-0.mp3'',
      AppendSilence ''/app/9f86d081884c7d659a2feaa0c55ad015/chunk-1.mp3'' (Finite (1 / 4))
        ''/app/9f86d081884c7d659a2feaa0c55ad015/merged-1.mp3'',
      ConcatAudio [''/app/9f86d081884c7d659a2feaa0c55ad015/merged-0.mp3'',
                   ''/app/9f86d081884c7d659a2feaa0c55ad015/merged-1.mp3''] 2
        ''/app/9f86d081884c7d659a2feaa0c55ad015/extended-audio.mp3'',
      Mux ''/app/9f86d081884c7d659a2feaa0c55ad015/looped-video.mp4''
        ''/app/9f86d081884c7d659a2feaa0c55ad015/extended-audio.mp3'' ''/app/merged_video.mp4''] \<and>
   GenSilence (Finite (1 / 4)) ''/app/silence-0.mp3'' \<in>
     set (issued (snd (processMedia
       (example_world ''/app/looped-input-video.mp4'' (Some 10) (Some (9999999 / 1000000))
          (Some two_silences) (\<lambda>c. True))
       fresh)))"
  by (simp add: mergeAudioVideo_pads_equal_durations processMedia_pads_within_a_microsecond)

text \<open>
  Claim C6, as amended. When the two probed durations are exactly equal (the scripts
  compare them exactly; there is no epsilon), \<open>processMedia\<close> runs neither the looping nor
  the padding: after the two probes the only command is the mux of the original video and
  audio, and no file other than the muxed output is written. For equal durations
  \<open>loopVideo\<close> itself also resolves with the original video path without issuing a command
  or touching the state.
\<close>

theorem processMedia_equal_durations:
  assumes "ffprobe_duration w (path_join (dirname w) ''looped-input-video.mp4'') = Some d"
    and "ffprobe_duration w (path_join (dirname w) ''input-audio.mp3'') = Some d"
  shows "issued (snd (processMedia w st)) =
           issued st @
           [Ffprobe (path_join (dirname w) ''looped-input-video.mp4''),
            Ffprobe (path_join (dirname w) ''input-audio.mp3''),
            Mux (path_join (dirname w) ''looped-input-video.mp4'')
                (path_join (dirname w) ''input-audio.mp3'')
                (path_join (dirname w) ''output-video-with-audio.mp4'')] \<and>
         (\<forall>p. p \<noteq> path_join (dirname w) ''output-video-with-audio.mp4'' \<longrightarrow>
              files (snd (processMedia w st)) p = files st p) \<and>
         loopVideo w videoPath d d outputLoopedVideoPath st = (Inr videoPath, st)"
  using assms
  by (simp add: processMedia_def mergeAudioVideo_mux_def loopVideo_def await_def resolve_def run_def
      getDuration_def Let_def)

theorem processMedia_equal_durations_witness:
  "ffprobe_duration
      (example_world ''/app/looped-input-video.mp4'' (Some 10) (Some 10) (Some two_silences)
         (\<lambda>c. True))
      (path_join (dirname (example_world ''/app/looped-input-video.mp4'' (Some 10) (Some 10)
                             (Some two_silences) (\<lambda>c. True)))
         ''looped-input-video.mp4'') = Some 10 \<and>
   ffprobe_duration
      (example_world ''/app/looped-input-video.mp4'' (Some 10) (Some 10) (Some two_silences)
         (\<lambda>c. True))
      (path_join (dirname (example_world ''/app/looped-input-video.mp4'' (Some 10) (Some 10)
                             (Some two_silences) (\<lambda>c. True)))
         ''input-audio.mp3'') = Some 10 \<and>
   issued (snd (processMedia
      (example_world ''/app/looped-input-video.mp4'' (Some 10) (Some 10) (Some two_silences)
         (\<lambda>c. True)) fresh)) =
     [Ffprobe ''/app/looped-input-video.mp4'', Ffprobe ''/app/input-audio.mp3'',
      Mux ''/app/looped-input-video.mp4'' ''/app/input-audio.mp3''
        ''/app/output-video-with-audio.mp4''] \<and>
   files (snd (processMedia
      (example_world ''/app/looped-input-video.mp4'' (Some 10) (Some 10) (Some two_silences)
         (\<lambda>c. True)) fresh))
      ''/app/extended-audio.mp3'' = None"
  using processMedia_equal_durations[of
      "example_world ''/app/looped-input-video.mp4'' (Some 10) (Some 10) (Some two_silences) (\<lambda>c. True)"
      10 fresh]
  by (simp add: example_world_def fresh_def path_join_def)

section \<open>Failures and the temporary directory\<close>

text \<open>Nothing in the body of the \<open>try\<close> creates or removes a directory.\<close>

lemma run_dirs: "dirs (snd (run w c st)) = dirs st"
  by (simp add: run_def Let_def split: option.splits prod.splits)

lemma await_dirs:
  assumes "\<And>st. dirs (snd (p st)) = dirs st" and "\<And>v st. dirs (snd (k v st)) = dirs st"
  shows "dirs (snd (await p k st)) = dirs st"
proof (cases "p st")
  case (Pair r st')
  with assms(1)[of st] have "dirs st' = dirs st" by simp
  with Pair assms(2) show ?thesis by (cases r) (simp_all add: await_def)
qed

lemma Promise_all_dirs:
  assumes "\<And>x st. dirs (snd (f x st)) = dirs st"
  shows "dirs (snd (Promise_all (map f xs) st)) = dirs st"
proof (induction xs arbitrary: st)
  case Nil
  show ?case by simp
next
  case (Cons x xs)
  obtain r st1 where h: "f x st = (r, st1)" by (cases "f x st")
  obtain rs st2 where t: "Promise_all (map f xs) st1 = (rs, st2)"
    by (cases "Promise_all (map f xs) st1")
  from h assms[of x st] have "dirs st1 = dirs st" by simp
  moreover from t Cons.IH[of st1] have "dirs st2 = dirs st1" by simp
  ultimately show ?case by (simp add: h t)
qed

lemma resolve_dirs: "dirs (snd (resolve v st)) = dirs st"
  by (simp add: resolve_def)

lemma getDuration_dirs: "dirs (snd (getDuration w p st)) = dirs st"
  by (simp add: getDuration_def Let_def split: option.splits)

lemma detectSilences_dirs: "dirs (snd (detectSilences w p st)) = dirs st"
  by (simp add: detectSilences_def Let_def split: option.splits)

lemma extract_chunk_dirs: "dirs (snd (extract_chunk w a dir spc ci st)) = dirs st"
  unfolding extract_chunk_def
  by (cases ci) (simp add: Let_def await_dirs run_dirs resolve_dirs)

lemma merge_chunk_dirs: "dirs (snd (merge_chunk w dir ri st)) = dirs st"
  unfolding merge_chunk_def
  by (cases ri) (auto simp: Let_def intro!: await_dirs run_dirs resolve_dirs)

lemma extendAudioWithSilence_dirs:
  "dirs (snd (extendAudioWithSilence w a vd out dir st)) = dirs st"
  unfolding extendAudioWithSilence_def
proof (rule await_dirs[OF detectSilences_dirs])
  fix v st
  obtain cs dur where c: "audioChunks_of v = (cs, dur)" by (cases "audioChunks_of v")
  show "dirs (snd ((case audioChunks_of v of
          (audioChunks, audioDuration) \<Rightarrow>
            let totalSilenceNeeded = js_sub vd audioDuration;
                silencePerChunk = js_div totalSilenceNeeded (of_nat (length audioChunks))
            in await (Promise_all (map (extract_chunk w a dir silencePerChunk) (indexed audioChunks)))
                 (\<lambda>chunkResults.
                    await (Promise_all (map (merge_chunk w dir) (indexed chunkResults)))
                      (\<lambda>mergedFiles.
                         await (run w (ConcatAudio mergedFiles (length mergedFiles) out))
                           (\<lambda>_. resolve out)))) st)) = dirs st"
    unfolding c prod.case Let_def
    by (intro await_dirs Promise_all_dirs extract_chunk_dirs merge_chunk_dirs run_dirs resolve_dirs)
qed

lemma loopVideo_dirs: "dirs (snd (loopVideo w v vd ad out st)) = dirs st"
  unfolding loopVideo_def
  by (auto simp: Let_def intro!: await_dirs run_dirs resolve_dirs)

lemma mergeAudioVideo_try_dirs:
  "dirs (snd (mergeAudioVideo_try w v a out dir st)) = dirs st"
  unfolding mergeAudioVideo_try_def
  by (auto simp: Let_def
        intro!: await_dirs getDuration_dirs extendAudioWithSilence_dirs loopVideo_dirs run_dirs resolve_dirs)

lemma mergeAudioVideo_always_resolves:
  "fst (mergeAudioVideo w videoPath audioPath outputPath st) = Inr ()"
  by (simp add: mergeAudioVideo_def split: prod.splits sum.splits)

text \<open>
  Claim C7. A failure of any stage should reach the caller as a failure of the run. In
  the last iteration it does not: when probing the video fails, the body of the \<open>try\<close>
  rejects at once (only the probe has been issued, nothing is retried, the remaining steps
  are skipped), but the \<open>catch\<close> only logs, so the promise \<open>mergeAudioVideo\<close> returns
  resolves.
\<close>

theorem mergeAudioVideo_swallows_failure:
  "fst (mergeAudioVideo_try
      (example_world ''/app/input-video.mp4'' None (Some 12) (Some []) (\<lambda>c. True))
      ''/app/input-video.mp4'' ''/app/input-audio.mp3'' ''/app/merged_video.mp4''
      (tempDir_of (example_world ''/app/input-video.mp4'' None (Some 12) (Some []) (\<lambda>c. True)))
      fresh) = Inl (EngineError (Ffprobe ''/app/input-video.mp4'')) \<and>
   fst (mergeAudioVideo
      (example_world ''/app/input-video.mp4'' None (Some 12) (Some []) (\<lambda>c. True))
      ''/app/input-video.mp4'' ''/app/input-audio.mp3'' ''/app/merged_video.mp4'' fresh) = Inr () \<and>
   issued (snd (mergeAudioVideo
      (example_world ''/app/input-video.mp4'' None (Some 12) (Some []) (\<lambda>c. True))
      ''/app/input-video.mp4'' ''/app/input-audio.mp3'' ''/app/merged_video.mp4'' fresh)) =
     [Ffprobe ''/app/input-video.mp4'']"
  by (simp add: mergeAudioVideo_def mergeAudioVideo_try_def createTempDirectory_def
      tempDir_of_def rmSync_def example_world_def fresh_def run_defs)

text \<open>
  Claim C8. The temporary directory exists once \<open>createTempDirectory\<close> has run and is
  still there when the body of the \<open>try\<close> has ended, with success or with a failure; and
  after \<open>mergeAudioVideo\<close> has returned, whatever the engine did and whichever stage
  failed, it is not among the directories, no directory inside it is left, and no file
  inside it is left. The run is sequential in this model; an engine process still running after a
  rejected \<open>Promise.all\<close> is not modelled.
\<close>

theorem tempDir_removed:
  "tempDir_of w \<in> dirs (snd (createTempDirectory w st)) \<and>
   tempDir_of w \<in> dirs (snd (mergeAudioVideo_try w videoPath audioPath outputPath (tempDir_of w)
                                (snd (createTempDirectory w st)))) \<and>
   tempDir_of w \<notin> dirs (snd (mergeAudioVideo w videoPath audioPath outputPath st)) \<and>
   Set.filter (inside (tempDir_of w))
     (dirs (snd (mergeAudioVideo w videoPath audioPath outputPath st))) = {} \<and>
   files (snd (mergeAudioVideo w videoPath audioPath outputPath st))
     (path_join (tempDir_of w) name) = None"
proof -
  have "tempDir_of w \<in> dirs (snd (createTempDirectory w st))"
    by (simp add: createTempDirectory_def Let_def)
  then show ?thesis
    by (auto simp: mergeAudioVideo_try_dirs mergeAudioVideo_def createTempDirectory_def rmSync_def
        inside_def path_join_def Let_def split: prod.splits sum.splits)
qed

section \<open>The simple padding variant\<close>

text \<open>
  Claim C10. When videoDuration - totalSilenceTime is not positive the simple variant
  should hand back the original audio path. Here the video lasts 10 seconds and the
  detected silence 10.5: no silence file is made, but the value the first callback
  returns, the audio path, is taken by the second callback as the silence file, so the
  audio is concatenated with itself into the output path, and that path is the result.
\<close>

theorem simple_variant_doubles_audio:
  "totalSilenceTime_of (scrape long_silence) = 21 / 2 \<and>
   fst (extendAudioWithSilence_simple
      (example_world ''/app/input-video.mp4'' (Some 10) (Some 12) (Some long_silence) (\<lambda>c. True))
      ''/app/input-audio.mp3'' 10 ''/app/extended-audio.mp3'' fresh) =
     Inr ''/app/extended-audio.mp3'' \<and>
   issued (snd (extendAudioWithSilence_simple
      (example_world ''/app/input-video.mp4'' (Some 10) (Some 12) (Some long_silence) (\<lambda>c. True))
      ''/app/input-audio.mp3'' 10 ''/app/extended-audio.mp3'' fresh)) =
     [SilenceDetect ''/app/input-audio.mp3'',
      ConcatAudio [''/app/input-audio.mp3'', ''/app/input-audio.mp3''] 2
        ''/app/extended-audio.mp3''] \<and>
   files (snd (extendAudioWithSilence_simple
      (example_world ''/app/input-video.mp4'' (Some 10) (Some 12) (Some long_silence) (\<lambda>c. True))
      ''/app/input-audio.mp3'' 10 ''/app/extended-audio.mp3'' fresh))
      ''/app/extended-audio.mp3'' =
     Some [Original ''/app/input-audio.mp3'', Original ''/app/input-audio.mp3'']"
  by (simp add: extendAudioWithSilence_simple_def totalSilenceTime_of_def scrape_long_silence
      example_world_def fresh_def run_defs)

end
